theory Spec2Isabelle
  imports Complex_Main "HOL-Library.Log_Nat"
begin

section \<open>Receipt records and the record store\<close>

text \<open>
  The \<^verbatim>\<open>receipts\<close> table of the schema: one row per uploaded receipt, keyed by
  its \<^verbatim>\<open>id\<close>. \<^verbatim>\<open>user_id\<close> and \<^verbatim>\<open>extracted_data\<close> are nullable columns
  (\<open>None\<close> is SQL NULL); \<^verbatim>\<open>processing_status\<close> is one of the four values of the
  CHECK constraint and of the \<^verbatim>\<open>Receipt\<close> type.
\<close>

type_synonym uid = string
type_synonym rid = string

datatype status = Pending | Processing | Completed | Failed

text \<open>JSON values, as stored in the JSONB column and sent in response bodies.\<close>

datatype json = JNum rat | JStr string | JArr "json list" | JObj "(string \<times> json) list"

record receipt =
  user_id :: "uid option"
  file_url :: string
  file_name :: string
  processing_status :: status
  extracted_data :: "json option"
  created_at :: string

type_synonym store = "rid \<rightharpoonup> receipt"

text \<open>
  Row-level security: the policies \<^verbatim>\<open>auth.uid() = user_id\<close> for SELECT and UPDATE
  make a query of caller \<open>u\<close> see and change only rows whose \<^verbatim>\<open>user_id\<close> is \<open>u\<close>. An
  \<^verbatim>\<open>update(...).eq('id', i)\<close> that matches no visible row changes nothing and reports
  no error; updates are partial (only the named columns change).
\<close>

definition rls_update :: "uid \<Rightarrow> rid \<Rightarrow> (receipt \<Rightarrow> receipt) \<Rightarrow> store \<Rightarrow> store" where
  "rls_update u i f db =
     (case db i of
        None \<Rightarrow> db
      | Some r \<Rightarrow> if user_id r = Some u then db(i \<mapsto> f r) else db)"

text \<open>\<^verbatim>\<open>select('file_url').eq('id', i).single()\<close>: the row's file URL, or no data.\<close>

definition rls_select_file_url :: "uid \<Rightarrow> rid \<Rightarrow> store \<Rightarrow> string option" where
  "rls_select_file_url u i db =
     (case db i of
        None \<Rightarrow> None
      | Some r \<Rightarrow> if user_id r = Some u then Some (file_url r) else None)"

section \<open>The clock and \<^verbatim>\<open>toISOString\<close>\<close>

text \<open>
  \<^verbatim>\<open>new Date()\<close> is the environment's clock, held as its UTC calendar fields (month
  and day counted from 1). \<^verbatim>\<open>toISOString\<close> prints them as ECMAScript defines it:
  four digits for the years 0 to 9999, a sign and six digits for every other year.
\<close>

record js_date =
  utc_year :: int
  utc_month :: nat
  utc_day :: nat
  utc_hours :: nat
  utc_minutes :: nat
  utc_seconds :: nat
  utc_ms :: nat

definition digit_char :: "nat \<Rightarrow> char" where
  "digit_char d = char_of (48 + d)"

fun pad :: "nat \<Rightarrow> nat \<Rightarrow> string" where
  "pad 0 n = []"
| "pad (Suc k) n = pad k (n div 10) @ [digit_char (n mod 10)]"

definition year_string :: "int \<Rightarrow> string" where
  "year_string y =
     (if 0 \<le> y \<and> y \<le> 9999 then pad 4 (nat y)
      else (if y < 0 then ''-'' else ''+'') @ pad 6 (nat \<bar>y\<bar>))"

definition toISOString :: "js_date \<Rightarrow> string" where
  "toISOString d =
     year_string (utc_year d) @ ''-'' @ pad 2 (utc_month d) @ ''-'' @ pad 2 (utc_day d) @
     ''T'' @ pad 2 (utc_hours d) @ '':'' @ pad 2 (utc_minutes d) @ '':'' @
     pad 2 (utc_seconds d) @ ''.'' @ pad 3 (utc_ms d) @ ''Z''"

text \<open>\<^verbatim>\<open>s.split('T')[0]\<close>: the part of \<open>s\<close> before its first \<^verbatim>\<open>T\<close>.\<close>

definition split_T_first :: "string \<Rightarrow> string" where
  "split_T_first s = takeWhile (\<lambda>c. c \<noteq> CHR ''T'') s"

section \<open>JavaScript numbers\<close>

text \<open>
  A JavaScript number is an IEEE 754 double, held here as its exact rational value.
  The result of an arithmetic operation, and the value of a decimal literal, is the
  exact result rounded to the nearest double, ties to the even significand. Doubles
  have 53 significant bits and exponents from -1022 (below which they are subnormal,
  with the fixed spacing \<open>2 powi - 1074\<close>); overflow to infinity is not modelled,
  the numbers of the handler stay below 10001.
\<close>

definition round_even :: "rat \<Rightarrow> int" where
  "round_even q =
     (let f = \<lfloor>q\<rfloor>; r = q - of_int f
      in if r < 1 / 2 then f else if 1 / 2 < r then f + 1 else if even f then f else f + 1)"

text \<open>For positive \<open>x\<close>, the \<open>e\<close> with \<open>2 powi e \<le> x < 2 powi (e + 1)\<close>.\<close>

definition binary_exponent :: "rat \<Rightarrow> int" where
  "binary_exponent x =
     (let d = bitlen (fst (quotient_of x)) - bitlen (snd (quotient_of x))
      in if 2 powi d \<le> x then d else d - 1)"

text \<open>The spacing of the doubles around \<open>x\<close>.\<close>

definition ulp :: "rat \<Rightarrow> rat" where
  "ulp x = 2 powi (max (binary_exponent \<bar>x\<bar>) (- 1022) - 52)"

definition round_double :: "rat \<Rightarrow> rat" where
  "round_double x = (if x = 0 then 0 else of_int (round_even (x / ulp x)) * ulp x)"

text \<open>The operators \<^verbatim>\<open>*\<close> and \<^verbatim>\<open>/\<close> on numbers.\<close>

definition js_times :: "rat \<Rightarrow> rat \<Rightarrow> rat" where
  "js_times x y = round_double (x * y)"

definition js_divide :: "rat \<Rightarrow> rat \<Rightarrow> rat" where
  "js_divide x y = round_double (x / y)"

text \<open>\<^verbatim>\<open>Math.floor\<close>; the floor of a double is a double.\<close>

definition math_floor :: "rat \<Rightarrow> rat" where
  "math_floor x = of_int \<lfloor>x\<rfloor>"

section \<open>The Extraction Worker (\<^verbatim>\<open>process-receipt\<close>)\<close>

text \<open>
  What the handler takes from outside the record store: the identity the auth service
  resolves for an \<^verbatim>\<open>Authorization\<close> header, whether each database call succeeds (a
  call that fails changes no row), the message of a thrown exception, the double that
  \<^verbatim>\<open>Math.random()\<close> returns and the clock.
\<close>

record env =
  getUser :: "string option \<Rightarrow> uid option"
  update_processing_ok :: bool
  select_ok :: bool
  update_completed_error :: "string option"
  update_failed_ok :: bool
  thrown_message :: string
  random :: rat
  now :: js_date

text \<open>
  A request: its method, its \<^verbatim>\<open>Authorization\<close> header, and the \<^verbatim>\<open>receipt_id\<close> of
  its JSON body (\<open>None\<close> when \<^verbatim>\<open>req.json()\<close> or the destructuring throws).
\<close>

record request =
  req_method :: string
  authorization :: "string option"
  req_json :: "rid option"

datatype body = Text string | Json json

record response =
  status_code :: nat
  resp_body :: body

definition mockExtractedData :: "env \<Rightarrow> json" where
  "mockExtractedData e =
     JObj [(''total'', JNum (js_divide (math_floor (js_times (random e) 10000)) 100)),
           (''date'', JStr (split_T_first (toISOString (now e)))),
           (''merchant'', JStr ''Sample Store''),
           (''items'',
            JArr [JObj [(''name'', JStr ''Item 1''), (''price'', JNum (round_double (1599 / 100)))],
                  JObj [(''name'', JStr ''Item 2''),
                        (''price'', JNum (round_double (2350 / 100)))]])]"

text \<open>
  The handler returns its response and the trace of the record store: the store after
  each \<^verbatim>\<open>update\<close> call it issued, in order (a failed call leaves the store as it was).
  The database is shared, so every store of the trace can be observed by another
  reader.
\<close>

definition serve :: "env \<Rightarrow> request \<Rightarrow> store \<Rightarrow> response \<times> store list" where
  "serve e req db =
     (if req_method req = ''OPTIONS'' then
        (\<lparr>status_code = 200, resp_body = Text ''ok''\<rparr>, [])
      else
        case getUser e (authorization req) of
          None \<Rightarrow> (\<lparr>status_code = 401, resp_body = Text ''Unauthorized''\<rparr>, [])
        | Some u \<Rightarrow>
            (case req_json req of
               None \<Rightarrow>
                 (\<lparr>status_code = 500,
                   resp_body = Json (JObj [(''error'', JStr (thrown_message e))])\<rparr>, [])
             | Some receipt_id \<Rightarrow>
                 let db1 = (if update_processing_ok e
                            then rls_update u receipt_id
                                   (\<lambda>r. r\<lparr>processing_status := Processing\<rparr>) db
                            else db)
                 in
                 (case (if select_ok e then rls_select_file_url u receipt_id db1 else None) of
                    None \<Rightarrow>
                      (\<lparr>status_code = 404, resp_body = Text ''Receipt not found''\<rparr>, [db1])
                  | Some receipt \<Rightarrow>
                      let mock = mockExtractedData e in
                      (case update_completed_error e of
                         None \<Rightarrow>
                           (\<lparr>status_code = 200,
                             resp_body = Json (JObj [(''data'', mock)])\<rparr>,
                            [db1,
                             rls_update u receipt_id
                               (\<lambda>r. r\<lparr>processing_status := Completed,
                                       extracted_data := Some mock\<rparr>) db1])
                       | Some message \<Rightarrow>
                           (\<lparr>status_code = 400,
                             resp_body = Json (JObj [(''error'', JStr message)])\<rparr>,
                            [db1, db1,
                             if update_failed_ok e
                             then rls_update u receipt_id
                                    (\<lambda>r. r\<lparr>processing_status := Failed\<rparr>) db1
                             else db1])))))"

text \<open>The store an invocation leaves behind: the last store of its trace.\<close>

definition final :: "store \<Rightarrow> store list \<Rightarrow> store" where
  "final db tr = last (db # tr)"

section \<open>Observing records along a trace\<close>

definition status_at :: "rid \<Rightarrow> store \<Rightarrow> status option" where
  "status_at i db = map_option processing_status (db i)"

definition holds_at :: "(receipt \<Rightarrow> bool) \<Rightarrow> rid \<Rightarrow> store \<Rightarrow> bool" where
  "holds_at P i db = (case db i of None \<Rightarrow> True | Some r \<Rightarrow> P r)"

text \<open>Whether caller \<open>u\<close> can see row \<open>i\<close>.\<close>

definition visible :: "uid \<Rightarrow> rid \<Rightarrow> store \<Rightarrow> bool" where
  "visible u i db = (case db i of None \<Rightarrow> False | Some r \<Rightarrow> user_id r = Some u)"

text \<open>The extracted data stored for row \<open>i\<close> (none when there is no such row).\<close>

definition stored_data :: "rid \<Rightarrow> store \<Rightarrow> json option" where
  "stored_data i db = (case db i of None \<Rightarrow> None | Some r \<Rightarrow> extracted_data r)"

text \<open>
  The status path as the specification states it, one edge at a time:
  \<^verbatim>\<open>pending -> processing -> {completed | failed}\<close>, or no change.
\<close>

fun spec_step :: "status \<Rightarrow> status \<Rightarrow> bool" where
  "spec_step Pending Processing = True"
| "spec_step Processing Completed = True"
| "spec_step Processing Failed = True"
| "spec_step s s' = (s = s')"

text \<open>Moving forward on that path by any number of edges.\<close>

fun forward :: "status \<Rightarrow> status \<Rightarrow> bool" where
  "forward Pending s' = True"
| "forward Processing s' = (s' \<noteq> Pending)"
| "forward s s' = (s = s')"

text \<open>What a write of the worker can do to a status: leave it, or set one of the three
  values the handler writes.\<close>

fun worker_step :: "status \<Rightarrow> status \<Rightarrow> bool" where
  "worker_step s Pending = (s = Pending)"
| "worker_step s s' = True"

definition data_iff_completed :: "receipt \<Rightarrow> bool" where
  "data_iff_completed r = ((extracted_data r \<noteq> None) = (processing_status r = Completed))"

definition completed_has_data :: "receipt \<Rightarrow> bool" where
  "completed_has_data r = (processing_status r \<noteq> Completed \<or> extracted_data r \<noteq> None)"

definition pending_no_data :: "receipt \<Rightarrow> bool" where
  "pending_no_data r = (processing_status r \<noteq> Pending \<or> extracted_data r = None)"

text \<open>The field of a JSON object.\<close>

fun field :: "string \<Rightarrow> json \<Rightarrow> json option" where
  "field k (JObj kvs) = map_of kvs k"
| "field k j = None"

text \<open>The \<^verbatim>\<open>data\<close> of a JSON response.\<close>

definition response_data :: "response \<Rightarrow> json option" where
  "response_data resp = (case resp_body resp of Json j \<Rightarrow> field ''data'' j | Text t \<Rightarrow> None)"

text \<open>The same store with the file URL of every row replaced.\<close>

definition with_file_urls :: "(rid \<Rightarrow> string) \<Rightarrow> store \<Rightarrow> store" where
  "with_file_urls g db = (\<lambda>i. map_option (\<lambda>r. r\<lparr>file_url := g i\<rparr>) (db i))"

section \<open>The Upload Orchestrator (\<^verbatim>\<open>ReceiptUpload\<close>)\<close>

record js_file =
  fname :: string
  ftype :: string
  fsize :: nat

text \<open>The backend the component talks to: the receipts table and the storage bucket.\<close>

record world =
  receipts :: store
  bucket :: "string \<rightharpoonup> js_file"

text \<open>
  What an insert takes from outside: the generated id, the owner and timestamp the
  database assigns to the new row, and whether the insert succeeds.
\<close>

record insert_env =
  new_id :: rid
  row_owner :: "uid option"
  row_created_at :: string
  insert_ok :: bool

record upload_env =
  random_name :: string
  upload_ok :: bool
  public_url :: "string \<Rightarrow> string"
  ins :: insert_env
  session_header :: "string option"
  worker :: env

text \<open>
  Everything the component does that can be seen from outside, in order: the state
  setters, the toasts, the callback, and the three network calls.
\<close>

datatype event =
    SetUploading bool
  | SetProcessing bool
  | SetProgress nat
  | SetExtractedData body
  | Toast string string bool
  | ConsoleError
  | OnReceiptProcessed
  | CallUpload string
  | CallInsert string string
  | CallInvoke rid

fun is_network :: "event \<Rightarrow> bool" where
  "is_network (CallUpload p) = True"
| "is_network (CallInsert u n) = True"
| "is_network (CallInvoke i) = True"
| "is_network ev = False"

text \<open>\<^verbatim>\<open>name.split('.').pop()\<close>: the part of the name after its last dot.\<close>

definition split_dot_pop :: "string \<Rightarrow> string" where
  "split_dot_pop s = rev (takeWhile (\<lambda>c. c \<noteq> CHR ''.'') (rev s))"

text \<open>Each helper returns \<open>None\<close> where the source throws.\<close>

definition uploadFile :: "upload_env \<Rightarrow> js_file \<Rightarrow> world \<Rightarrow> (string \<times> string) option \<times> world" where
  "uploadFile ue file w =
     (let fileExt = split_dot_pop (fname file);
          fileName = random_name ue @ ''.'' @ fileExt;
          filePath = ''receipts/'' @ fileName
      in if \<not> upload_ok ue then (None, w)
         else (Some (filePath, public_url ue filePath),
               w\<lparr>bucket := (bucket w)(filePath \<mapsto> file)\<rparr>))"

definition createReceiptRecord ::
  "insert_env \<Rightarrow> js_file \<Rightarrow> string \<Rightarrow> string \<Rightarrow> store \<Rightarrow> rid option \<times> store" where
  "createReceiptRecord ie file filePath publicUrl db =
     (if insert_ok ie \<and> db (new_id ie) = None then
        (Some (new_id ie),
         db(new_id ie \<mapsto>
            \<lparr>user_id = row_owner ie, file_url = publicUrl, file_name = fname file,
             processing_status = Pending, extracted_data = None,
             created_at = row_created_at ie\<rparr>))
      else (None, db))"

text \<open>\<^verbatim>\<open>functions.invoke\<close>: a POST with the session's header, which reaches the handler;
  a response outside 200..299 is an error, which \<^verbatim>\<open>processReceipt\<close> throws.\<close>

definition processReceipt :: "upload_env \<Rightarrow> rid \<Rightarrow> store \<Rightarrow> body option \<times> store" where
  "processReceipt ue receiptId db =
     (let (resp, tr) = serve (worker ue)
                         \<lparr>req_method = ''POST'', authorization = session_header ue,
                          req_json = Some receiptId\<rparr> db
      in (if 200 \<le> status_code resp \<and> status_code resp \<le> 299
          then Some (resp_body resp) else None,
          final db tr))"

definition validTypes :: "string list" where
  "validTypes = [''image/jpeg'', ''image/png'', ''image/webp'', ''application/pdf'']"

text \<open>The \<^verbatim>\<open>catch\<close> and \<^verbatim>\<open>finally\<close> blocks.\<close>

definition catch_events :: "event list" where
  "catch_events =
     [ConsoleError, Toast ''Error'' ''Failed to process receipt. Please try again.'' True]"

definition finally_events :: "event list" where
  "finally_events = [SetUploading False, SetProcessing False, SetProgress 0]"

definition handleFileUpload ::
  "upload_env \<Rightarrow> js_file list option \<Rightarrow> world \<Rightarrow> event list \<times> world" where
  "handleFileUpload ue files w =
     (case files of
        None \<Rightarrow> ([], w)
      | Some [] \<Rightarrow> ([], w)
      | Some (file # rest) \<Rightarrow>
          if ftype file \<notin> set validTypes then
            ([Toast ''Invalid file type''
                ''Please upload an image (JPEG, PNG, WebP) or PDF file'' True], w)
          else if fsize file > 10 * 1024 * 1024 then
            ([Toast ''File too large'' ''Please upload a file smaller than 10MB'' True], w)
          else
            let start = [SetUploading True, SetProgress 10] in
            (case uploadFile ue file w of
               (None, w1) \<Rightarrow>
                 (start @ [CallUpload (''receipts/'' @ random_name ue @ ''.'' @
                                         split_dot_pop (fname file))] @
                  catch_events @ finally_events, w1)
             | (Some (filePath, publicUrl), w1) \<Rightarrow>
                 let ev1 = start @ [CallUpload filePath, SetProgress 30,
                                    CallInsert publicUrl (fname file)] in
                 (case createReceiptRecord (ins ue) file filePath publicUrl (receipts w1) of
                    (None, db2) \<Rightarrow>
                      (ev1 @ catch_events @ finally_events, w1\<lparr>receipts := db2\<rparr>)
                  | (Some receipt_id, db2) \<Rightarrow>
                      let ev2 = ev1 @ [SetProgress 50, SetUploading False, SetProcessing True,
                                       CallInvoke receipt_id] in
                      (case processReceipt ue receipt_id db2 of
                         (None, db3) \<Rightarrow>
                           (ev2 @ catch_events @ finally_events, w1\<lparr>receipts := db3\<rparr>)
                       | (Some extractedData, db3) \<Rightarrow>
                           (ev2 @ [SetProgress 100, SetExtractedData extractedData,
                                   Toast ''Receipt processed successfully''
                                     ''Transaction data has been extracted from your receipt''
                                     False,
                                   OnReceiptProcessed] @ finally_events,
                            w1\<lparr>receipts := db3\<rparr>)))))"

text \<open>The values the progress indicator takes during a run, in order.\<close>

fun progress_values :: "event list \<Rightarrow> nat list" where
  "progress_values [] = []"
| "progress_values (SetProgress n # evs) = n # progress_values evs"
| "progress_values (ev # evs) = progress_values evs"

text \<open>The events that are progress reports or network calls.\<close>

fun is_step :: "event \<Rightarrow> bool" where
  "is_step (SetProgress n) = True"
| "is_step ev = is_network ev"

text \<open>
  How a run ends, told from the input and the backend alone: whether the first file
  passes validation, whether the upload and the insert succeed, and whether the
  worker, invoked on the store that holds the inserted row, answers with a status
  from 200 to 299.
\<close>

datatype outcome = NotStarted | UploadFailed | InsertFailed | ExtractionFailed | Succeeded

definition passes_validation :: "js_file \<Rightarrow> bool" where
  "passes_validation f =
     (ftype f \<in> {''image/jpeg'', ''image/png'', ''image/webp'', ''application/pdf''} \<and>
      fsize f \<le> 10485760)"

definition upload_path :: "upload_env \<Rightarrow> js_file \<Rightarrow> string" where
  "upload_path ue f = ''receipts/'' @ random_name ue @ ''.'' @ split_dot_pop (fname f)"

definition inserted_row :: "upload_env \<Rightarrow> js_file \<Rightarrow> receipt" where
  "inserted_row ue f =
     \<lparr>user_id = row_owner (ins ue), file_url = public_url ue (upload_path ue f),
      file_name = fname f, processing_status = Pending, extracted_data = None,
      created_at = row_created_at (ins ue)\<rparr>"

definition worker_response :: "upload_env \<Rightarrow> js_file \<Rightarrow> world \<Rightarrow> response" where
  "worker_response ue f w =
     fst (serve (worker ue)
            \<lparr>req_method = ''POST'', authorization = session_header ue,
             req_json = Some (new_id (ins ue))\<rparr>
            ((receipts w)(new_id (ins ue) \<mapsto> inserted_row ue f)))"

definition run_outcome :: "upload_env \<Rightarrow> js_file list option \<Rightarrow> world \<Rightarrow> outcome" where
  "run_outcome ue files w =
     (case files of
        None \<Rightarrow> NotStarted
      | Some [] \<Rightarrow> NotStarted
      | Some (f # rest) \<Rightarrow>
          if \<not> passes_validation f then NotStarted
          else if \<not> upload_ok ue then UploadFailed
          else if \<not> insert_ok (ins ue) \<or> receipts w (new_id (ins ue)) \<noteq> None
          then InsertFailed
          else if 200 \<le> status_code (worker_response ue f w) \<and>
                  status_code (worker_response ue f w) \<le> 299 then Succeeded
          else ExtractionFailed)"

section \<open>Sequences of operations on the record store\<close>

datatype operation =
    Create insert_env js_file string string
  | Invoke env request

fun apply_operation :: "operation \<Rightarrow> store \<Rightarrow> store list" where
  "apply_operation (Create ie file filePath publicUrl) db =
     [snd (createReceiptRecord ie file filePath publicUrl db)]"
| "apply_operation (Invoke e req) db = snd (serve e req db)"

text \<open>Every store the record store passes through while the operations run in turn.\<close>

fun run :: "operation list \<Rightarrow> store \<Rightarrow> store list" where
  "run [] db = []"
| "run (x # xs) db = (let tr = apply_operation x db in tr @ run xs (final db tr))"

text \<open>
  Along a history of stores, record \<open>j\<close> carries extracted data exactly when it has
  been in status \<^verbatim>\<open>completed\<close> at some point so far (\<open>seen\<close> says whether it
  has been before the history starts).
\<close>

fun data_iff_ever_completed :: "rid \<Rightarrow> bool \<Rightarrow> store list \<Rightarrow> bool" where
  "data_iff_ever_completed j seen [] = True"
| "data_iff_ever_completed j seen (s # ss) =
     (let seen' = (seen \<or> status_at j s = Some Completed)
      in (stored_data j s \<noteq> None) = seen' \<and> data_iff_ever_completed j seen' ss)"

text \<open>An operation that invokes the worker on record \<open>j\<close> while \<open>j\<close> already carries
  extracted data, and a sequence of operations without one.\<close>

definition reinvokes :: "rid \<Rightarrow> operation \<Rightarrow> store \<Rightarrow> bool" where
  "reinvokes j x db =
     (case x of
        Create ie fl filePath publicUrl \<Rightarrow> False
      | Invoke e req \<Rightarrow> req_json req = Some j \<and> stored_data j db \<noteq> None)"

fun never_reinvoked :: "rid \<Rightarrow> operation list \<Rightarrow> store \<Rightarrow> bool" where
  "never_reinvoked j [] db = True"
| "never_reinvoked j (x # xs) db =
     (\<not> reinvokes j x db \<and> never_reinvoked j xs (final db (apply_operation x db)))"

text \<open>What one step of the record store can do to the data of record \<open>j\<close>: data stays
  once present, and appears only together with status \<^verbatim>\<open>completed\<close>.\<close>

definition data_step :: "rid \<Rightarrow> store \<Rightarrow> store \<Rightarrow> bool" where
  "data_step j s s' =
     ((stored_data j s \<noteq> None \<longrightarrow> stored_data j s' \<noteq> None) \<and>
      (stored_data j s' \<noteq> None \<longrightarrow>
         stored_data j s \<noteq> None \<or> status_at j s' = Some Completed) \<and>
      (status_at j s' = Some Completed \<longrightarrow>
         stored_data j s' \<noteq> None \<or> status_at j s = Some Completed))"

section \<open>Formats of the extracted payload\<close>

definition is_digit :: "char \<Rightarrow> bool" where
  "is_digit c = (48 \<le> (of_char c :: nat) \<and> (of_char c :: nat) \<le> 57)"

definition digit_val :: "char \<Rightarrow> nat" where
  "digit_val c = of_char c - 48"

definition num_of :: "string \<Rightarrow> nat" where
  "num_of s = foldl (\<lambda>a c. 10 * a + digit_val c) 0 s"

definition leap_year :: "int \<Rightarrow> bool" where
  "leap_year y = (y mod 4 = 0 \<and> (y mod 100 \<noteq> 0 \<or> y mod 400 = 0))"

definition days_in_month :: "int \<Rightarrow> nat \<Rightarrow> nat" where
  "days_in_month y m =
     (if m = 2 then (if leap_year y then 29 else 28)
      else if m = 4 \<or> m = 6 \<or> m = 9 \<or> m = 11 then 30 else 31)"

definition valid_ymd :: "int \<Rightarrow> nat \<Rightarrow> nat \<Rightarrow> bool" where
  "valid_ymd y m d = (1 \<le> m \<and> m \<le> 12 \<and> 1 \<le> d \<and> d \<le> days_in_month y m)"

text \<open>A string of the form \<^verbatim>\<open>YYYY-MM-DD\<close> that names a day of the calendar.\<close>

definition is_iso_date :: "string \<Rightarrow> bool" where
  "is_iso_date s =
     (length s = 10 \<and> list_all is_digit (take 4 s) \<and> s ! 4 = CHR ''-'' \<and>
      list_all is_digit (take 2 (drop 5 s)) \<and> s ! 7 = CHR ''-'' \<and>
      list_all is_digit (drop 8 s) \<and>
      valid_ymd (int (num_of (take 4 s))) (num_of (take 2 (drop 5 s))) (num_of (drop 8 s)))"

text \<open>What the runtime guarantees of the fields of a date.\<close>

definition valid_clock :: "js_date \<Rightarrow> bool" where
  "valid_clock d =
     (valid_ymd (utc_year d) (utc_month d) (utc_day d) \<and> utc_hours d < 24 \<and>
      utc_minutes d < 60 \<and> utc_seconds d < 60 \<and> utc_ms d < 1000)"

text \<open>
  A number is a decimal with at most two decimal places when it is the double such a
  decimal denotes: the double nearest to \<open>n / 100\<close> for a whole number \<open>n\<close>.
\<close>

definition is_cents :: "rat \<Rightarrow> bool" where
  "is_cents t = (round_double (of_int (round_even (t * 100)) / 100) = t)"

definition price_ok :: "json \<Rightarrow> bool" where
  "price_ok item = (case field ''price'' item of Some (JNum p) \<Rightarrow> 0 \<le> p | _ \<Rightarrow> False)"

definition total_ok :: "json \<Rightarrow> bool" where
  "total_ok j = (case field ''total'' j of Some (JNum t) \<Rightarrow> 0 \<le> t \<and> is_cents t | _ \<Rightarrow> False)"

definition date_ok :: "json \<Rightarrow> bool" where
  "date_ok j = (case field ''date'' j of Some (JStr s) \<Rightarrow> is_iso_date s | _ \<Rightarrow> False)"

definition items_ok :: "json \<Rightarrow> bool" where
  "items_ok j = (case field ''items'' j of Some (JArr xs) \<Rightarrow> list_all price_ok xs | _ \<Rightarrow> False)"

definition payload_ok :: "json \<Rightarrow> bool" where
  "payload_ok j = (total_ok j \<and> date_ok j \<and> items_ok j)"

section \<open>Example inputs\<close>

text \<open>\<open>random\<close> is the double nearest to 0.29.\<close>

definition alice_env :: env where
  "alice_env =
     \<lparr>getUser = (\<lambda>h. if h = Some ''Bearer alice'' then Some ''alice'' else None),
      update_processing_ok = True, select_ok = True, update_completed_error = None,
      update_failed_ok = True, thrown_message = ''Unexpected end of JSON input'',
      random = 5224175567749775 / 18014398509481984,
      now = \<lparr>utc_year = 2024, utc_month = 3, utc_day = 9, utc_hours = 14, utc_minutes = 5,
             utc_seconds = 7, utc_ms = 42\<rparr>\<rparr>"

text \<open>The same environment with the clock at the first day of the year 10000.\<close>

definition late_env :: env where
  "late_env =
     alice_env\<lparr>now := \<lparr>utc_year = 10000, utc_month = 1, utc_day = 1, utc_hours = 0,
                         utc_minutes = 0, utc_seconds = 0, utc_ms = 0\<rparr>\<rparr>"

definition failing_env :: env where
  "failing_env = alice_env\<lparr>update_completed_error := Some ''connection reset''\<rparr>"

definition alice_post :: request where
  "alice_post = \<lparr>req_method = ''POST'', authorization = Some ''Bearer alice'',
                  req_json = Some ''r1''\<rparr>"

definition preflight :: request where
  "preflight = \<lparr>req_method = ''OPTIONS'', authorization = None, req_json = None\<rparr>"

definition anonymous_post :: request where
  "anonymous_post = \<lparr>req_method = ''POST'', authorization = None, req_json = Some ''r1''\<rparr>"

definition old_payload :: json where
  "old_payload = JObj [(''total'', JNum (999 / 100)), (''date'', JStr ''2024-01-01''),
                       (''merchant'', JStr ''Sample Store''), (''items'', JArr [])]"

definition alice_row :: "status \<Rightarrow> json option \<Rightarrow> receipt" where
  "alice_row s d =
     \<lparr>user_id = Some ''alice'', file_url = ''https://cdn.example/receipts/0.5488135.jpg'',
      file_name = ''lunch.jpg'', processing_status = s, extracted_data = d,
      created_at = ''2024-03-09T14:05:00Z''\<rparr>"

definition db_row :: "status \<Rightarrow> json option \<Rightarrow> store" where
  "db_row s d = Map.empty(''r1'' \<mapsto> alice_row s d)"

definition alice_upload :: upload_env where
  "alice_upload =
     \<lparr>random_name = ''0.5488135'', upload_ok = True,
      public_url = (\<lambda>p. ''https://cdn.example/'' @ p),
      ins = \<lparr>new_id = ''r1'', row_owner = Some ''alice'',
             row_created_at = ''2024-03-09T14:05:00Z'', insert_ok = True\<rparr>,
      session_header = Some ''Bearer alice'', worker = alice_env\<rparr>"

text \<open>The same upload against a worker whose completing update reports an error.\<close>

definition rejecting_upload :: upload_env where
  "rejecting_upload = alice_upload\<lparr>worker := failing_env\<rparr>"

definition lunch_jpg :: js_file where
  "lunch_jpg = \<lparr>fname = ''lunch.jpg'', ftype = ''image/jpeg'', fsize = 2097152\<rparr>"

definition notes_txt :: js_file where
  "notes_txt = \<lparr>fname = ''notes.txt'', ftype = ''text/plain'', fsize = 120\<rparr>"

definition scan_pdf :: js_file where
  "scan_pdf = \<lparr>fname = ''scan.pdf'', ftype = ''application/pdf'', fsize = 11534336\<rparr>"

definition empty_world :: world where
  "empty_world = \<lparr>receipts = Map.empty, bucket = Map.empty\<rparr>"

lemmas example_defs =
  alice_env_def failing_env_def late_env_def alice_post_def preflight_def anonymous_post_def
  alice_row_def db_row_def alice_upload_def rejecting_upload_def lunch_jpg_def notes_txt_def
  scan_pdf_def empty_world_def

lemmas serve_defs = serve_def rls_update_def rls_select_file_url_def Let_def

section \<open>Facts about the record store\<close>

lemma status_at_rls_update:
  "(\<And>r. processing_status (f r) = t) \<Longrightarrow>
   status_at j (rls_update u i f db) =
     (if j = i \<and> visible u i db then Some t else status_at j db)"
  by (simp add: status_at_def rls_update_def visible_def split: option.splits)

lemma visible_rls_update:
  "(\<And>r. user_id (f r) = user_id r) \<Longrightarrow>
   visible u j (rls_update u' i f db) = visible u j db"
  by (simp add: rls_update_def visible_def split: option.splits)

lemma select_visible: "(rls_select_file_url u i db = None) = (\<not> visible u i db)"
  by (simp add: rls_select_file_url_def visible_def split: option.splits)

lemma worker_step_refl [simp]: "worker_step s s"
  by (cases s) simp_all

lemma forward_refl [simp]: "forward s s"
  by (cases s) simp_all

lemma rel_option_worker_step_refl [simp]: "rel_option worker_step x x"
  by (cases x) simp_all

lemma rel_option_forward_refl [simp]: "rel_option forward x x"
  by (cases x) simp_all

lemma visible_status: "visible u i db \<Longrightarrow> \<exists>s. status_at i db = Some s"
  by (simp add: visible_def status_at_def split: option.splits)

lemma final_in: "final db tr \<in> set (db # tr)"
  by (simp add: final_def)

text \<open>Every store of a trace differs from the starting store at most in the target row,
  which then carries one of the three writes of the handler.\<close>

lemma trace_pointwise:
  assumes "s \<in> set (snd (serve e req db))"
  shows "s j = db j \<or>
    (\<exists>r. db j = Some r \<and> req_json req = Some j \<and>
       (s j = Some (r\<lparr>processing_status := Processing\<rparr>) \<or>
        s j = Some (r\<lparr>processing_status := Completed,
                      extracted_data := Some (mockExtractedData e)\<rparr>) \<or>
        s j = Some (r\<lparr>processing_status := Failed\<rparr>)))"
  using assms
  by (auto simp add: serve_defs split: option.splits if_splits)

lemma create_pointwise:
  "snd (createReceiptRecord ie fl p u db) j = db j \<or>
   (db j = None \<and> (\<exists>r. snd (createReceiptRecord ie fl p u db) j = Some r \<and>
        processing_status r = Pending \<and> extracted_data r = None))"
  by (simp add: createReceiptRecord_def)

section \<open>The worker: authentication, lookup, completion\<close>

text \<open>
  C6, as stated, fails: a CORS preflight (method \<^verbatim>\<open>OPTIONS\<close>) that carries no identity
  is answered \<^verbatim>\<open>200 ok\<close>, not 401, because the handler answers it before it
  authenticates.
\<close>

theorem unauthenticated_preflight_counterexample:
  "getUser alice_env (authorization preflight) = None \<and>
   fst (serve alice_env preflight (db_row Pending None)) =
     \<lparr>status_code = 200, resp_body = Text ''ok''\<rparr>"
  by (simp add: serve_def example_defs)

text \<open>
  C6 (amended): a request without a valid identity has no side effects: the handler
  issues no write, and its answer does not depend on the record store, so nothing was
  read. The answer is \<^verbatim>\<open>401 Unauthorized\<close>, except for a preflight (method
  \<^verbatim>\<open>OPTIONS\<close>), which is answered \<^verbatim>\<open>200 ok\<close>.
\<close>

theorem unauthenticated_no_effects:
  assumes "getUser e (authorization req) = None"
  shows "snd (serve e req db) = [] \<and>
         serve e req db' = serve e req db \<and>
         fst (serve e req db) =
           (if req_method req = ''OPTIONS''
            then \<lparr>status_code = 200, resp_body = Text ''ok''\<rparr>
            else \<lparr>status_code = 401, resp_body = Text ''Unauthorized''\<rparr>)"
  using assms by (simp add: serve_def)

theorem unauthenticated_no_effects_witness:
  "serve alice_env anonymous_post (db_row Pending None) =
     (\<lparr>status_code = 401, resp_body = Text ''Unauthorized''\<rparr>, [])"
  using unauthenticated_no_effects [of alice_env anonymous_post "db_row Pending None" Map.empty]
  by (simp add: example_defs prod_eq_iff)

text \<open>
  C7: when no record has the requested id, the invocation changes no record, whatever
  else happens, and an authenticated invocation is answered \<^verbatim>\<open>404 Receipt not found\<close>.
\<close>

theorem missing_receipt_not_found:
  assumes "req_json req = Some i" and "db i = None"
  shows "(\<forall>s \<in> set (snd (serve e req db)). s = db) \<and>
         (req_method req \<noteq> ''OPTIONS'' \<and> getUser e (authorization req) = Some u \<longrightarrow>
            serve e req db =
              (\<lparr>status_code = 404, resp_body = Text ''Receipt not found''\<rparr>, [db]))"
  using assms by (auto simp add: serve_defs split: option.splits if_splits)

theorem missing_receipt_not_found_witness:
  "serve alice_env alice_post Map.empty =
     (\<lparr>status_code = 404, resp_body = Text ''Receipt not found''\<rparr>, [Map.empty])"
  using missing_receipt_not_found [of alice_post "''r1''" Map.empty alice_env "''alice''"]
  by (simp add: example_defs)

text \<open>
  C3: when the caller is authenticated, the record exists and is the caller's, and the
  lookup and the completing update succeed, the trace has exactly two stores: the one
  after the \<^verbatim>\<open>processing\<close> write, and the one where status \<^verbatim>\<open>completed\<close> and the
  payload are set together. The response carries the payload that is stored, so the
  totals agree.
\<close>

theorem completed_single_update:
  assumes "req_method req \<noteq> ''OPTIONS''" and "getUser e (authorization req) = Some u"
    and "req_json req = Some i" and "db i = Some r" and "user_id r = Some u"
    and "select_ok e" and "update_completed_error e = None"
  shows "(\<exists>db1. db1 = (if update_processing_ok e
                        then db(i \<mapsto> r\<lparr>processing_status := Processing\<rparr>) else db) \<and>
            serve e req db =
              (\<lparr>status_code = 200,
                resp_body = Json (JObj [(''data'', mockExtractedData e)])\<rparr>,
               [db1, db1(i \<mapsto> r\<lparr>processing_status := Completed,
                                 extracted_data := Some (mockExtractedData e)\<rparr>)])) \<and>
         response_data (fst (serve e req db)) = Some (mockExtractedData e) \<and>
         stored_data i (final db (snd (serve e req db))) = Some (mockExtractedData e) \<and>
         Option.bind (response_data (fst (serve e req db))) (field ''total'') =
           Option.bind (stored_data i (final db (snd (serve e req db)))) (field ''total'') \<and>
         Option.bind (response_data (fst (serve e req db))) (field ''total'') \<noteq> None"
  using assms
  by (auto simp add: serve_defs response_data_def stored_data_def final_def
        mockExtractedData_def)

theorem completed_single_update_witness:
  "snd (serve alice_env alice_post (db_row Pending None)) =
     [db_row Processing None, db_row Completed (Some (mockExtractedData alice_env))] \<and>
   response_data (fst (serve alice_env alice_post (db_row Pending None))) =
     Some (mockExtractedData alice_env)"
  using completed_single_update
          [of alice_post alice_env "''alice''" "''r1''" "db_row Pending None"
              "alice_row Pending None"]
  by (auto simp add: alice_env_def alice_post_def db_row_def alice_row_def)

text \<open>
  C5: a second invocation on a record that already carries a payload \<open>p\<close> leaves, at
  every point, either exactly \<open>p\<close> or exactly the newly computed payload in the record.
  When the response is the success response the record holds the new payload; every
  other response is one of the error responses (or the answer to a preflight), and
  the record still holds \<open>p\<close>.
\<close>

theorem reinvocation_payload_whole:
  assumes "db i = Some r" and "extracted_data r = Some p" and "req_json req = Some i"
  shows "(\<forall>s \<in> set (db # snd (serve e req db)).
            stored_data i s = Some p \<or> stored_data i s = Some (mockExtractedData e)) \<and>
         stored_data i (final db (snd (serve e req db))) =
           (if fst (serve e req db) =
                 \<lparr>status_code = 200,
                   resp_body = Json (JObj [(''data'', mockExtractedData e)])\<rparr>
            then Some (mockExtractedData e) else Some p) \<and>
         (fst (serve e req db) =
            \<lparr>status_code = 200, resp_body = Json (JObj [(''data'', mockExtractedData e)])\<rparr> \<or>
          status_code (fst (serve e req db)) \<in> {400, 401, 404, 500} \<or>
          req_method req = ''OPTIONS'')"
  using assms
  by (auto simp add: serve_defs stored_data_def final_def split: option.splits if_splits)

theorem reinvocation_payload_whole_witness:
  "stored_data ''r1''
     (final (db_row Completed (Some old_payload))
        (snd (serve alice_env alice_post (db_row Completed (Some old_payload))))) =
     Some (mockExtractedData alice_env) \<and>
   stored_data ''r1''
     (final (db_row Completed (Some old_payload))
        (snd (serve failing_env alice_post (db_row Completed (Some old_payload))))) =
     Some old_payload"
  using reinvocation_payload_whole
          [of "db_row Completed (Some old_payload)" "''r1''"
              "alice_row Completed (Some old_payload)" old_payload alice_post alice_env]
        reinvocation_payload_whole
          [of "db_row Completed (Some old_payload)" "''r1''"
              "alice_row Completed (Some old_payload)" old_payload alice_post failing_env]
  by (simp add: serve_defs stored_data_def final_def alice_env_def alice_post_def db_row_def alice_row_def failing_env_def)

text \<open>
  C10: the file URL of the record never reaches the payload. Replacing the file URL of
  every row, in any way, changes neither the response nor the payload and status the
  handler writes: the trace is the same but for the replaced URLs. The payload is
  \<open>mockExtractedData e\<close>, a function of the random number and the clock alone.
\<close>

theorem payload_independent_of_file:
  "fst (serve e req (with_file_urls g db)) = fst (serve e req db) \<and>
   snd (serve e req (with_file_urls g db)) = map (with_file_urls g) (snd (serve e req db)) \<and>
   (response_data (fst (serve e req db)) = None \<or>
    response_data (fst (serve e req db)) = Some (mockExtractedData e))"
  by (auto simp add: serve_defs with_file_urls_def response_data_def fun_eq_iff
        split: option.splits if_splits)

section \<open>The worker: status transitions and the data invariant\<close>

text \<open>
  C1, as stated, fails: the handler writes \<^verbatim>\<open>processing\<close> without looking at the
  current status, so a second invocation on a completed record moves it from
  \<^verbatim>\<open>completed\<close> to \<^verbatim>\<open>processing\<close> (and then to \<^verbatim>\<open>completed\<close> again).
\<close>

theorem status_path_counterexample:
  "map (status_at ''r1'')
     (db_row Completed (Some old_payload) #
      snd (serve alice_env alice_post (db_row Completed (Some old_payload)))) =
     [Some Completed, Some Processing, Some Completed] \<and>
   \<not> successively (rel_option spec_step)
       (map (status_at ''r1'')
          (db_row Completed (Some old_payload) #
           snd (serve alice_env alice_post (db_row Completed (Some old_payload)))))"
  by (simp add: serve_defs example_defs status_at_def)

text \<open>
  C1 (amended): no write of the worker sets a status to \<^verbatim>\<open>pending\<close> or removes a
  record. For a record in \<^verbatim>\<open>pending\<close> or \<^verbatim>\<open>processing\<close> the status only moves forward
  on the path \<^verbatim>\<open>pending -> processing -> {completed | failed}\<close> during an invocation.
  An invocation by the record's owner whose database calls succeed writes
  \<^verbatim>\<open>processing\<close> and then \<^verbatim>\<open>completed\<close>, whatever the status was before, a terminal
  one included.
\<close>

theorem worker_status_steps:
  "successively (rel_option worker_step) (map (status_at i) (db # snd (serve e req db))) \<and>
   (status_at i db = Some Pending \<or> status_at i db = Some Processing \<longrightarrow>
      successively (rel_option forward) (map (status_at i) (db # snd (serve e req db)))) \<and>
   (req_method req \<noteq> ''OPTIONS'' \<and> getUser e (authorization req) = Some u \<and>
    req_json req = Some i \<and> db i = Some r \<and> user_id r = Some u \<and>
    update_processing_ok e \<and> select_ok e \<and> update_completed_error e = None \<longrightarrow>
      map (status_at i) (db # snd (serve e req db)) =
        [Some (processing_status r), Some Processing, Some Completed])"
proof (intro conjI impI)
  show "successively (rel_option worker_step) (map (status_at i) (db # snd (serve e req db)))"
    by (auto simp add: serve_def Let_def status_at_rls_update visible_rls_update select_visible
          split: option.splits dest!: visible_status)
next
  assume "status_at i db = Some Pending \<or> status_at i db = Some Processing"
  then show "successively (rel_option forward) (map (status_at i) (db # snd (serve e req db)))"
    by (auto simp add: serve_def Let_def status_at_rls_update visible_rls_update select_visible
          split: option.splits)
next
  assume a: "req_method req \<noteq> ''OPTIONS'' \<and> getUser e (authorization req) = Some u \<and>
    req_json req = Some i \<and> db i = Some r \<and> user_id r = Some u \<and>
    update_processing_ok e \<and> select_ok e \<and> update_completed_error e = None"
  then have v: "visible u i db"
    by (simp add: visible_def)
  have s: "status_at i db = Some (processing_status r)"
    using a by (simp add: status_at_def)
  show "map (status_at i) (db # snd (serve e req db)) =
          [Some (processing_status r), Some Processing, Some Completed]"
    using a v s
    by (simp add: serve_def Let_def status_at_rls_update visible_rls_update select_visible
          split: option.splits)
qed

theorem worker_status_steps_witness:
  "map (status_at ''r1'') (db_row Pending None # snd (serve alice_env alice_post (db_row Pending None))) =
     [Some Pending, Some Processing, Some Completed] \<and>
   successively (rel_option forward)
     (map (status_at ''r1'')
        (db_row Pending None # snd (serve alice_env alice_post (db_row Pending None))))"
  using worker_status_steps
          [of "''r1''" "db_row Pending None" alice_env alice_post "''alice''"
              "alice_row Pending None"]
  by (simp add: alice_env_def alice_post_def db_row_def alice_row_def status_at_def)

section \<open>The orchestrator: validation and progress\<close>

lemma in_validTypes:
  "(t \<in> set validTypes) =
     (t \<in> {''image/jpeg'', ''image/png'', ''image/webp'', ''application/pdf''})"
  by (simp add: validTypes_def)

lemmas upload_defs =
  handleFileUpload_def uploadFile_def Let_def catch_events_def finally_events_def

text \<open>
  C4: a first file whose media type is not one of the four allowed ones, or whose
  size is above 10 MiB, makes \<^verbatim>\<open>handleFileUpload\<close> return after a single destructive
  toast that names the violated constraint: no network call is made, and the storage
  bucket and the receipts table are as before.
\<close>

theorem invalid_file_rejected:
  assumes "ftype f \<notin> {''image/jpeg'', ''image/png'', ''image/webp'', ''application/pdf''} \<or>
           fsize f > 10485760"
  shows "snd (handleFileUpload ue (Some (f # rest)) w) = w \<and>
         filter is_network (fst (handleFileUpload ue (Some (f # rest)) w)) = [] \<and>
         fst (handleFileUpload ue (Some (f # rest)) w) =
           (if ftype f \<notin> {''image/jpeg'', ''image/png'', ''image/webp'', ''application/pdf''}
            then [Toast ''Invalid file type''
                    ''Please upload an image (JPEG, PNG, WebP) or PDF file'' True]
            else [Toast ''File too large'' ''Please upload a file smaller than 10MB'' True])"
  using assms by (auto simp add: handleFileUpload_def in_validTypes)

theorem invalid_file_rejected_witness:
  "handleFileUpload alice_upload (Some [notes_txt]) empty_world =
     ([Toast ''Invalid file type''
         ''Please upload an image (JPEG, PNG, WebP) or PDF file'' True], empty_world) \<and>
   handleFileUpload alice_upload (Some [scan_pdf]) empty_world =
     ([Toast ''File too large'' ''Please upload a file smaller than 10MB'' True], empty_world)"
  using invalid_file_rejected [of notes_txt alice_upload "[]" empty_world]
    invalid_file_rejected [of scan_pdf alice_upload "[]" empty_world]
  by (simp add: notes_txt_def scan_pdf_def prod_eq_iff)

end
